theory Spec2Isabelle
  imports Complex_Main
begin

section \<open>The rental yield and ROI calculator of \<^verbatim>\<open>src/app.py\<close>\<close>

text \<open>
  The script computes, from thirteen sidebar inputs, the figures of a long-term and a
  short-term rental strategy, compares them and grades the investment (lines 150 to 368).
  Every module-level variable of that part of the script is a function here, under the
  name the script gives it.

  Numbers are modelled as mathematical reals: Python's \<^verbatim>\<open>int\<close> and \<^verbatim>\<open>float\<close> values are
  embedded exactly, and \<^verbatim>\<open>+\<close>, \<^verbatim>\<open>-\<close>, \<^verbatim>\<open>*\<close>, \<^verbatim>\<open>/\<close>, \<^verbatim>\<open>**\<close> are the exact operations.
  The rounding and the overflow of binary floating point are not represented. The one
  non-finite float the script creates itself, \<^verbatim>\<open>float('inf')\<close>, is a constructor of its own.
  The mortgage term stays an integer, since it is used as an exponent.

  A division by a variable raises \<^verbatim>\<open>ZeroDivisionError\<close> in Python when the divisor is
  zero. Each such division goes through \<open>py_div\<close>, and a variable computed with one
  has a result type with the error on the left.
\<close>

subsection \<open>Errors and values\<close>

datatype py_error = ZeroDivisionError

definition py_div :: "real \<Rightarrow> real \<Rightarrow> py_error + real" where
  "py_div a b = (if b = 0 then Inl ZeroDivisionError else Inr (a / b))"

definition bind_err :: "py_error + 'a \<Rightarrow> ('a \<Rightarrow> py_error + 'b) \<Rightarrow> py_error + 'b" where
  "bind_err m f = (case m of Inl e \<Rightarrow> Inl e | Inr x \<Rightarrow> f x)"

text \<open>A float that is either finite or \<^verbatim>\<open>float('inf')\<close>.\<close>

datatype pyfloat = Finite real | PosInf

subsection \<open>Inputs (lines 23 to 148)\<close>

record inputs =
  price :: real
  rent_long :: real
  rent_short :: real
  occupancy_rate :: real
  expenses :: real
  initial_investment :: real
  mortgage_amount :: real
  interest_rate :: real
  mortgage_years :: int
  income_tax_rate :: real
  property_tax_rate :: real
  annual_maintenance_rate :: real
  insurance_cost :: real

subsection \<open>Mortgage (lines 153 to 161)\<close>

definition monthly_rate :: "inputs \<Rightarrow> real" where
  "monthly_rate i = (interest_rate i / 100) / 12"

definition num_payments :: "inputs \<Rightarrow> int" where
  "num_payments i = mortgage_years i * 12"

definition monthly_mortgage :: "inputs \<Rightarrow> py_error + real" where
  "monthly_mortgage i =
     (if mortgage_amount i > 0 then
        (if monthly_rate i > 0 then
           py_div (mortgage_amount i * (monthly_rate i * (1 + monthly_rate i) powi num_payments i))
                  ((1 + monthly_rate i) powi num_payments i - 1)
         else py_div (mortgage_amount i) (of_int (num_payments i)))
      else Inr 0)"

subsection \<open>Annual costs (lines 164 to 170)\<close>

text \<open>
  From here on \<open>mm\<close> is the value bound to \<^verbatim>\<open>monthly_mortgage\<close> by the lines above;
  \<open>analyse\<close> below supplies it.
\<close>

definition annual_property_tax :: "inputs \<Rightarrow> real" where
  "annual_property_tax i = (property_tax_rate i / 100) * price i"

definition annual_maintenance :: "inputs \<Rightarrow> real" where
  "annual_maintenance i = (annual_maintenance_rate i / 100) * price i"

definition annual_mortgage_payments :: "real \<Rightarrow> real" where
  "annual_mortgage_payments mm = mm * 12"

definition annual_insurance :: "inputs \<Rightarrow> real" where
  "annual_insurance i = insurance_cost i"

definition total_annual_costs :: "inputs \<Rightarrow> real \<Rightarrow> real" where
  "total_annual_costs i mm =
     expenses i * 12 + annual_property_tax i + annual_maintenance i
       + annual_mortgage_payments mm + annual_insurance i"

subsection \<open>Long-term rental (lines 173 to 180)\<close>

definition annual_long_gross :: "inputs \<Rightarrow> real" where
  "annual_long_gross i = rent_long i * 12"

definition annual_long_net_before_tax :: "inputs \<Rightarrow> real \<Rightarrow> real" where
  "annual_long_net_before_tax i mm = annual_long_gross i - total_annual_costs i mm"

definition income_tax_long :: "inputs \<Rightarrow> real \<Rightarrow> real" where
  "income_tax_long i mm = max 0 (annual_long_net_before_tax i mm * (income_tax_rate i / 100))"

definition annual_long_after_tax :: "inputs \<Rightarrow> real \<Rightarrow> real" where
  "annual_long_after_tax i mm = annual_long_net_before_tax i mm - income_tax_long i mm"

definition yield_long_gross :: "inputs \<Rightarrow> py_error + real" where
  "yield_long_gross i =
     (if price i > 0 then bind_err (py_div (annual_long_gross i) (price i)) (\<lambda>q. Inr (q * 100))
      else Inr 0)"

definition yield_long_net :: "inputs \<Rightarrow> real \<Rightarrow> py_error + real" where
  "yield_long_net i mm =
     (if price i > 0 then
        bind_err (py_div (annual_long_after_tax i mm) (price i)) (\<lambda>q. Inr (q * 100))
      else Inr 0)"

definition roi_long :: "inputs \<Rightarrow> real \<Rightarrow> py_error + real" where
  "roi_long i mm =
     (if initial_investment i > 0 then
        bind_err (py_div (annual_long_after_tax i mm) (initial_investment i)) (\<lambda>q. Inr (q * 100))
      else Inr 0)"

definition cash_flow_long :: "inputs \<Rightarrow> real \<Rightarrow> real" where
  "cash_flow_long i mm = annual_long_after_tax i mm"

subsection \<open>Short-term rental (lines 183 to 192)\<close>

definition days_per_month :: real where
  "days_per_month = 30"

definition monthly_nights_booked :: "inputs \<Rightarrow> real" where
  "monthly_nights_booked i = (occupancy_rate i / 100) * days_per_month"

definition annual_short_gross :: "inputs \<Rightarrow> real" where
  "annual_short_gross i = rent_short i * monthly_nights_booked i * 12"

definition annual_short_net_before_tax :: "inputs \<Rightarrow> real \<Rightarrow> real" where
  "annual_short_net_before_tax i mm = annual_short_gross i - total_annual_costs i mm"

definition income_tax_short :: "inputs \<Rightarrow> real \<Rightarrow> real" where
  "income_tax_short i mm = max 0 (annual_short_net_before_tax i mm * (income_tax_rate i / 100))"

definition annual_short_after_tax :: "inputs \<Rightarrow> real \<Rightarrow> real" where
  "annual_short_after_tax i mm = annual_short_net_before_tax i mm - income_tax_short i mm"

definition yield_short_gross :: "inputs \<Rightarrow> py_error + real" where
  "yield_short_gross i =
     (if price i > 0 then bind_err (py_div (annual_short_gross i) (price i)) (\<lambda>q. Inr (q * 100))
      else Inr 0)"

definition yield_short_net :: "inputs \<Rightarrow> real \<Rightarrow> py_error + real" where
  "yield_short_net i mm =
     (if price i > 0 then
        bind_err (py_div (annual_short_after_tax i mm) (price i)) (\<lambda>q. Inr (q * 100))
      else Inr 0)"

definition roi_short :: "inputs \<Rightarrow> real \<Rightarrow> py_error + real" where
  "roi_short i mm =
     (if initial_investment i > 0 then
        bind_err (py_div (annual_short_after_tax i mm) (initial_investment i)) (\<lambda>q. Inr (q * 100))
      else Inr 0)"

definition cash_flow_short :: "inputs \<Rightarrow> real \<Rightarrow> real" where
  "cash_flow_short i mm = annual_short_after_tax i mm"

subsection \<open>Payback period (lines 195 and 196)\<close>

definition best_cash_flow :: "inputs \<Rightarrow> real \<Rightarrow> real" where
  "best_cash_flow i mm = max (cash_flow_long i mm) (cash_flow_short i mm)"

definition breakeven_years :: "inputs \<Rightarrow> real \<Rightarrow> py_error + pyfloat" where
  "breakeven_years i mm =
     (if best_cash_flow i mm > 0 then
        bind_err (py_div (initial_investment i) (best_cash_flow i mm)) (\<lambda>q. Inr (Finite q))
      else Inr PosInf)"

subsection \<open>Principal paid in the first year (lines 199 to 209)\<close>

text \<open>
  The loop body of lines 204 to 207, on the pair
  (\<^verbatim>\<open>annual_principal_payment\<close>, \<^verbatim>\<open>remaining_balance\<close>), and the loop run \<open>k\<close> times.
\<close>

definition month_step :: "real \<Rightarrow> real \<Rightarrow> real \<times> real \<Rightarrow> real \<times> real" where
  "month_step r mm s =
     (let interest_payment = snd s * r;
          principal_payment = mm - interest_payment
      in (fst s + principal_payment, snd s - principal_payment))"

fun months :: "nat \<Rightarrow> real \<Rightarrow> real \<Rightarrow> real \<times> real \<Rightarrow> real \<times> real" where
  "months 0 r mm s = s"
| "months (Suc k) r mm s = months k r mm (month_step r mm s)"

definition annual_principal_payment :: "inputs \<Rightarrow> real \<Rightarrow> real" where
  "annual_principal_payment i mm =
     (if mortgage_amount i > 0 \<and> monthly_rate i > 0 then
        fst (months 12 (monthly_rate i) mm (0, mortgage_amount i))
      else min (annual_mortgage_payments mm) (mortgage_amount i))"

subsection \<open>Total return with equity (lines 212 to 215)\<close>

definition total_return_long :: "inputs \<Rightarrow> real \<Rightarrow> real" where
  "total_return_long i mm = annual_long_after_tax i mm + annual_principal_payment i mm"

definition total_return_short :: "inputs \<Rightarrow> real \<Rightarrow> real" where
  "total_return_short i mm = annual_short_after_tax i mm + annual_principal_payment i mm"

definition total_roi_long :: "inputs \<Rightarrow> real \<Rightarrow> py_error + real" where
  "total_roi_long i mm =
     (if initial_investment i > 0 then
        bind_err (py_div (total_return_long i mm) (initial_investment i)) (\<lambda>q. Inr (q * 100))
      else Inr 0)"

definition total_roi_short :: "inputs \<Rightarrow> real \<Rightarrow> py_error + real" where
  "total_roi_short i mm =
     (if initial_investment i > 0 then
        bind_err (py_div (total_return_short i mm) (initial_investment i)) (\<lambda>q. Inr (q * 100))
      else Inr 0)"

subsection \<open>Recommendation (lines 316 to 334)\<close>

datatype strategy = ShortTerm | LongTerm

text \<open>
  The three branches of lines 319 to 334: a strategy announced as more profitable
  (\<^verbatim>\<open>st.success\<close>, \<^verbatim>\<open>st.info\<close>) or the message that both are similar (\<^verbatim>\<open>st.warning\<close>).
\<close>

datatype verdict = MoreProfitable strategy | Similar

text \<open>
  What the recommendation column shows: the branch taken, the two differences of lines
  316 and 317, and the cash-flow figures written by the branch (one "Higher cash flow"
  line for a winner, the long-term and the short-term line otherwise).
\<close>

record recommendation =
  shown_verdict :: verdict
  shown_yield_difference :: real
  shown_income_difference :: real
  shown_cash_flows :: "real list"

definition yield_difference :: "inputs \<Rightarrow> real \<Rightarrow> py_error + real" where
  "yield_difference i mm =
     bind_err (yield_short_net i mm) (\<lambda>ys.
     bind_err (yield_long_net i mm) (\<lambda>yl. Inr \<bar>ys - yl\<bar>))"

definition income_difference :: "inputs \<Rightarrow> real \<Rightarrow> real" where
  "income_difference i mm = \<bar>annual_short_after_tax i mm - annual_long_after_tax i mm\<bar>"

definition recommend :: "inputs \<Rightarrow> real \<Rightarrow> py_error + recommendation" where
  "recommend i mm =
     bind_err (yield_difference i mm) (\<lambda>yd.
     bind_err (yield_short_net i mm) (\<lambda>ys.
     bind_err (yield_long_net i mm) (\<lambda>yl.
       if ys > yl then
         Inr \<lparr>shown_verdict = MoreProfitable ShortTerm, shown_yield_difference = yd,
              shown_income_difference = income_difference i mm,
              shown_cash_flows = [cash_flow_short i mm]\<rparr>
       else if yl > ys then
         Inr \<lparr>shown_verdict = MoreProfitable LongTerm, shown_yield_difference = yd,
              shown_income_difference = income_difference i mm,
              shown_cash_flows = [cash_flow_long i mm]\<rparr>
       else
         Inr \<lparr>shown_verdict = Similar, shown_yield_difference = yd,
              shown_income_difference = income_difference i mm,
              shown_cash_flows = [cash_flow_long i mm, cash_flow_short i mm]\<rparr>)))"

subsection \<open>Investment summary and grade (lines 339 to 368)\<close>

definition best_strategy :: "inputs \<Rightarrow> real \<Rightarrow> py_error + strategy" where
  "best_strategy i mm =
     bind_err (yield_short_net i mm) (\<lambda>ys.
     bind_err (yield_long_net i mm) (\<lambda>yl.
       Inr (if ys > yl then ShortTerm else LongTerm)))"

definition best_roi :: "inputs \<Rightarrow> real \<Rightarrow> py_error + real" where
  "best_roi i mm =
     bind_err (roi_long i mm) (\<lambda>rl.
     bind_err (roi_short i mm) (\<lambda>rs. Inr (max rl rs)))"

text \<open>The LTV line is written only when there is a mortgage (line 346).\<close>

definition ltv_ratio :: "inputs \<Rightarrow> py_error + real option" where
  "ltv_ratio i =
     (if mortgage_amount i > 0 then
        bind_err (py_div (mortgage_amount i) (price i)) (\<lambda>q. Inr (Some (q * 100)))
      else Inr None)"

datatype investment_grade = Excellent | Good | Moderate | Poor

definition grade_of :: "real \<Rightarrow> investment_grade" where
  "grade_of b =
     (if b \<ge> 15 then Excellent
      else if b \<ge> 10 then Good
      else if b \<ge> 5 then Moderate
      else Poor)"

definition grade :: "inputs \<Rightarrow> real \<Rightarrow> py_error + investment_grade" where
  "grade i mm = bind_err (best_roi i mm) (\<lambda>b. Inr (grade_of b))"

subsection \<open>The whole computation\<close>

text \<open>
  One run of lines 153 to 368, in the order of the script. A fault at any line ends the
  run with that error; otherwise the run yields the figures computed on the way.
\<close>

record report =
  rep_monthly_mortgage :: real
  rep_total_annual_costs :: real
  rep_yield_long_gross :: real
  rep_yield_long_net :: real
  rep_roi_long :: real
  rep_yield_short_gross :: real
  rep_yield_short_net :: real
  rep_roi_short :: real
  rep_breakeven_years :: pyfloat
  rep_annual_principal_payment :: real
  rep_total_roi_long :: real
  rep_total_roi_short :: real
  rep_recommendation :: recommendation
  rep_best_strategy :: strategy
  rep_best_cash_flow :: real
  rep_best_roi :: real
  rep_ltv_ratio :: "real option"
  rep_grade :: investment_grade

definition analyse :: "inputs \<Rightarrow> py_error + report" where
  "analyse i =
     bind_err (monthly_mortgage i) (\<lambda>mm.
     bind_err (yield_long_gross i) (\<lambda>ylg.
     bind_err (yield_long_net i mm) (\<lambda>yln.
     bind_err (roi_long i mm) (\<lambda>rl.
     bind_err (yield_short_gross i) (\<lambda>ysg.
     bind_err (yield_short_net i mm) (\<lambda>ysn.
     bind_err (roi_short i mm) (\<lambda>rs.
     bind_err (breakeven_years i mm) (\<lambda>by.
     bind_err (total_roi_long i mm) (\<lambda>trl.
     bind_err (total_roi_short i mm) (\<lambda>trs.
     bind_err (recommend i mm) (\<lambda>rc.
     bind_err (best_strategy i mm) (\<lambda>bs.
     bind_err (best_roi i mm) (\<lambda>br.
     bind_err (ltv_ratio i) (\<lambda>ltv.
     bind_err (grade i mm) (\<lambda>g.
       Inr \<lparr>rep_monthly_mortgage = mm,
            rep_total_annual_costs = total_annual_costs i mm,
            rep_yield_long_gross = ylg, rep_yield_long_net = yln, rep_roi_long = rl,
            rep_yield_short_gross = ysg, rep_yield_short_net = ysn, rep_roi_short = rs,
            rep_breakeven_years = by,
            rep_annual_principal_payment = annual_principal_payment i mm,
            rep_total_roi_long = trl, rep_total_roi_short = trs,
            rep_recommendation = rc, rep_best_strategy = bs,
            rep_best_cash_flow = best_cash_flow i mm, rep_best_roi = br,
            rep_ltv_ratio = ltv, rep_grade = g\<rparr>)))))))))))))))"

subsection \<open>The same lines on binary floating point\<close>

text \<open>
  Python's \<^verbatim>\<open>float\<close> is the IEEE 754 double: a result of \<^verbatim>\<open>+\<close>, \<^verbatim>\<open>-\<close>, \<^verbatim>\<open>*\<close> or \<^verbatim>\<open>/\<close> is the
  exact result rounded to the nearest number with a significand of 53 bits, a tie going
  to the even significand. \<open>round_double\<close> is that rounding with an unbounded exponent:
  it is the double's rounding for every result whose magnitude lies between \<open>2^-1022\<close>
  and \<open>2^1024\<close>, and for 0. Overflow to infinity and subnormal numbers are outside it.
\<close>

fun bit_length :: "nat \<Rightarrow> nat" where
  "bit_length n = (if n = 0 then 0 else Suc (bit_length (n div 2)))"

text \<open>For \<open>a > 0\<close>, the integer \<open>e\<close> with \<open>2^e \<le> a < 2^(e + 1)\<close>.\<close>

definition exponent :: "real \<Rightarrow> int" where
  "exponent a =
     (if 1 \<le> a then int (bit_length (nat \<lfloor>a\<rfloor>)) - 1
      else let j = int (bit_length (nat \<lfloor>1 / a\<rfloor>)) - 1
           in if a = 2 powi (- j) then - j else - j - 1)"

definition round_half_even :: "real \<Rightarrow> int" where
  "round_half_even x =
     (let f = \<lfloor>x\<rfloor> in
      if x - of_int f < 1 / 2 then f
      else if 1 / 2 < x - of_int f then f + 1
      else if even f then f else f + 1)"

definition round_double :: "real \<Rightarrow> real" where
  "round_double x =
     (if x = 0 then 0
      else let u = 2 powi (exponent \<bar>x\<bar> - 52)
           in sgn x * of_int (round_half_even (\<bar>x\<bar> / u)) * u)"

text \<open>
  Division by a variable, and \<^verbatim>\<open>**\<close> with an integer exponent. The power is taken as
  correctly rounded; the only power evaluated below has the base 1, where it is exact.
\<close>

definition fl_div :: "real \<Rightarrow> real \<Rightarrow> py_error + real" where
  "fl_div a b = (if b = 0 then Inl ZeroDivisionError else Inr (round_double (a / b)))"

definition fl_pow :: "real \<Rightarrow> int \<Rightarrow> real" where
  "fl_pow x n = round_double (x powi n)"

text \<open>
  Lines 153 to 192 with every operation rounded, in the order Python evaluates them.
  The inputs are taken to be doubles (or integers below \<open>2^53\<close>).
\<close>

definition monthly_rate_fl :: "inputs \<Rightarrow> real" where
  "monthly_rate_fl i = round_double (round_double (interest_rate i / 100) / 12)"

definition monthly_mortgage_fl :: "inputs \<Rightarrow> py_error + real" where
  "monthly_mortgage_fl i =
     (if mortgage_amount i > 0 then
        (if monthly_rate_fl i > 0 then
           fl_div
             (round_double (mortgage_amount i *
                round_double (monthly_rate_fl i *
                  fl_pow (round_double (1 + monthly_rate_fl i)) (num_payments i))))
             (round_double (fl_pow (round_double (1 + monthly_rate_fl i)) (num_payments i) - 1))
         else fl_div (mortgage_amount i) (of_int (num_payments i)))
      else Inr 0)"

definition annual_property_tax_fl :: "inputs \<Rightarrow> real" where
  "annual_property_tax_fl i = round_double (round_double (property_tax_rate i / 100) * price i)"

definition annual_maintenance_fl :: "inputs \<Rightarrow> real" where
  "annual_maintenance_fl i =
     round_double (round_double (annual_maintenance_rate i / 100) * price i)"

definition annual_mortgage_payments_fl :: "real \<Rightarrow> real" where
  "annual_mortgage_payments_fl mm = round_double (mm * 12)"

definition total_annual_costs_fl :: "inputs \<Rightarrow> real \<Rightarrow> real" where
  "total_annual_costs_fl i mm =
     round_double (round_double (round_double (round_double
       (round_double (expenses i * 12) + annual_property_tax_fl i)
         + annual_maintenance_fl i) + annual_mortgage_payments_fl mm) + insurance_cost i)"

definition annual_long_gross_fl :: "inputs \<Rightarrow> real" where
  "annual_long_gross_fl i = round_double (rent_long i * 12)"

definition annual_long_net_before_tax_fl :: "inputs \<Rightarrow> real \<Rightarrow> real" where
  "annual_long_net_before_tax_fl i mm =
     round_double (annual_long_gross_fl i - total_annual_costs_fl i mm)"















subsection \<open>Concrete input sets\<close>

text \<open>The sidebar defaults, which are also the worked example of the specification.\<close>

definition example_inputs :: inputs where
  "example_inputs =
     \<lparr>price = 300000, rent_long = 1200, rent_short = 80, occupancy_rate = 65,
      expenses = 400, initial_investment = 60000, mortgage_amount = 240000,
      interest_rate = 3.5, mortgage_years = 30, income_tax_rate = 28,
      property_tax_rate = 0.8, annual_maintenance_rate = 1.5, insurance_cost = 800\<rparr>"

text \<open>
  The defaults with the occupancy slider at 50: the short-term gross income is
  \<open>80 * 15 * 12 = 14400\<close>, the long-term one.
\<close>

definition tie_inputs :: inputs where
  "tie_inputs = example_inputs\<lparr>occupancy_rate := 50\<rparr>"


text \<open>The defaults with an interest rate of zero.\<close>

definition zero_rate_inputs :: inputs where
  "zero_rate_inputs = example_inputs\<lparr>interest_rate := 0\<rparr>"

text \<open>A purchase without a mortgage, profitable under both strategies.\<close>

definition cash_inputs :: inputs where
  "cash_inputs =
     \<lparr>price = 100000, rent_long = 1000, rent_short = 100, occupancy_rate = 50,
      expenses = 100, initial_investment = 100000, mortgage_amount = 0,
      interest_rate = 3.5, mortgage_years = 30, income_tax_rate = 20,
      property_tax_rate = 1, annual_maintenance_rate = 1, insurance_cost = 200\<rparr>"

text \<open>The defaults with the two gross incomes exchanged (18720 long-term, 14400 short-term).\<close>

definition swapped_inputs :: inputs where
  "swapped_inputs = example_inputs\<lparr>rent_long := 1560, occupancy_rate := 50\<rparr>"


text \<open>
  A purchase without a mortgage, taxes or maintenance, at an occupancy of 100: the rents
  are the doubles two places above 1200 and three places above 40.
\<close>

definition collision_inputs :: inputs where
  "collision_inputs =
     \<lparr>price = 100000, rent_long = 2638827906662401 / 2 ^ 41,
      rent_short = 5629499534213123 / 2 ^ 47, occupancy_rate = 100,
      expenses = 100, initial_investment = 100000, mortgage_amount = 0,
      interest_rate = 3.5, mortgage_years = 30, income_tax_rate = 0,
      property_tax_rate = 0, annual_maintenance_rate = 0, insurance_cost = 200\<rparr>"

text \<open>
  The same purchase at an income tax rate of 87, with two long-term rents that are
  neighbouring doubles near 509.00383.
\<close>

definition lower_rent_inputs :: inputs where
  "lower_rent_inputs =
     collision_inputs\<lparr>income_tax_rate := 87, rent_short := 100,
       rent_long := 559655631226213 / 2 ^ 40\<rparr>"

definition higher_rent_inputs :: inputs where
  "higher_rent_inputs =
     collision_inputs\<lparr>income_tax_rate := 87, rent_short := 100,
       rent_long := 8954490099619409 / 2 ^ 44\<rparr>"

text \<open>The defaults with the interest rate \<^verbatim>\<open>1e-14\<close>, that is, the double nearest to it.\<close>

definition tiny_rate_inputs :: inputs where
  "tiny_rate_inputs = example_inputs\<lparr>interest_rate := 6338253001141147 / 2 ^ 99\<rparr>"



text \<open>The payment of the default mortgage: 240000 at 3.5 percent over 30 years.\<close>

definition default_payment :: real where
  "default_payment = 240000 * (7 / 2400 * (2407 / 2400) ^ 360) / ((2407 / 2400) ^ 360 - 1)"

section \<open>Basic facts\<close>

lemma bind_err_Inr [simp]: "bind_err (Inr x) f = f x"
  by (simp add: bind_err_def)

lemma bind_err_Inl [simp]: "bind_err (Inl e) f = Inl e"
  by (simp add: bind_err_def)

lemma py_div_nonzero: "b \<noteq> 0 \<Longrightarrow> py_div a b = Inr (a / b)"
  by (simp add: py_div_def)

lemma py_div_zero: "py_div a 0 = Inl ZeroDivisionError"
  by (simp add: py_div_def)

text \<open>
  The divisions behind a guard of the form \<^verbatim>\<open>x / d * 100 if d > 0 else 0\<close> never fault:
  each of these variables has a value at every input, and the value is 0 when the
  divisor is not positive. The LTV line has no such guard on the price.
\<close>

lemma yield_long_gross_val:
  "yield_long_gross i = Inr (if price i > 0 then annual_long_gross i / price i * 100 else 0)"
  by (simp add: yield_long_gross_def py_div_nonzero)

lemma yield_short_gross_val:
  "yield_short_gross i = Inr (if price i > 0 then annual_short_gross i / price i * 100 else 0)"
  by (simp add: yield_short_gross_def py_div_nonzero)

lemma yield_long_net_val:
  "yield_long_net i mm = Inr (if price i > 0 then annual_long_after_tax i mm / price i * 100 else 0)"
  by (simp add: yield_long_net_def py_div_nonzero)

lemma yield_short_net_val:
  "yield_short_net i mm = Inr (if price i > 0 then annual_short_after_tax i mm / price i * 100 else 0)"
  by (simp add: yield_short_net_def py_div_nonzero)

lemma roi_long_val:
  "roi_long i mm =
     Inr (if initial_investment i > 0 then annual_long_after_tax i mm / initial_investment i * 100 else 0)"
  by (simp add: roi_long_def py_div_nonzero)

lemma roi_short_val:
  "roi_short i mm =
     Inr (if initial_investment i > 0 then annual_short_after_tax i mm / initial_investment i * 100 else 0)"
  by (simp add: roi_short_def py_div_nonzero)

lemma total_roi_long_val:
  "total_roi_long i mm =
     Inr (if initial_investment i > 0 then total_return_long i mm / initial_investment i * 100 else 0)"
  by (simp add: total_roi_long_def py_div_nonzero)

lemma total_roi_short_val:
  "total_roi_short i mm =
     Inr (if initial_investment i > 0 then total_return_short i mm / initial_investment i * 100 else 0)"
  by (simp add: total_roi_short_def py_div_nonzero)

lemma breakeven_years_val:
  "breakeven_years i mm =
     Inr (if best_cash_flow i mm > 0 then Finite (initial_investment i / best_cash_flow i mm)
          else PosInf)"
  by (simp add: breakeven_years_def py_div_nonzero)

lemma ltv_ratio_val:
  "ltv_ratio i =
     (if mortgage_amount i > 0 then
        if price i = 0 then Inl ZeroDivisionError
        else Inr (Some (mortgage_amount i / price i * 100))
      else Inr None)"
  by (simp add: ltv_ratio_def py_div_def)

lemma best_roi_val:
  "best_roi i mm =
     Inr (if initial_investment i > 0 then
            max (annual_long_after_tax i mm / initial_investment i * 100)
                (annual_short_after_tax i mm / initial_investment i * 100)
          else 0)"
  by (simp add: best_roi_def roi_long_val roi_short_val)

lemma recommend_total: "\<exists>rc. recommend i mm = Inr rc"
  by (simp add: recommend_def yield_difference_def yield_long_net_val yield_short_net_val)

lemma best_strategy_total: "\<exists>s. best_strategy i mm = Inr s"
  by (simp add: best_strategy_def yield_long_net_val yield_short_net_val)

lemma grade_val: "\<exists>b. best_roi i mm = Inr b \<and> grade i mm = Inr (grade_of b)"
  by (simp add: grade_def best_roi_val)

section \<open>The worked example\<close>

text \<open>
  Bounds on \<open>(1 + 3.5 / 100 / 12) ^ 360\<close>, the growth factor of the default mortgage,
  by interval arithmetic along \<open>360 = 5 * 9 * 8\<close>.
\<close>

lemma growth5:
  "1.01466865 \<le> (2407 / 2400 :: real) ^ 5" "(2407 / 2400 :: real) ^ 5 \<le> 1.01466866"
  by (simp_all add: power_divide)

lemma growth45:
  "1.14003498 \<le> (2407 / 2400 :: real) ^ 45" "(2407 / 2400 :: real) ^ 45 \<le> 1.14003510"
proof -
  have e: "(2407 / 2400 :: real) ^ 45 = ((2407 / 2400) ^ 5) ^ 9"
    by (simp only: power_mult [symmetric]) simp
  have "(1.14003498 :: real) \<le> 1.01466865 ^ 9"
    by (simp add: power_divide)
  also have "\<dots> \<le> ((2407 / 2400) ^ 5) ^ 9"
    by (rule power_mono [OF growth5(1)]) simp
  finally show "1.14003498 \<le> (2407 / 2400 :: real) ^ 45"
    by (simp only: e)
  have "((2407 / 2400 :: real) ^ 5) ^ 9 \<le> 1.01466866 ^ 9"
    by (rule power_mono [OF growth5(2)]) simp
  also have "\<dots> \<le> (1.14003510 :: real)"
    by (simp add: power_divide)
  finally show "(2407 / 2400 :: real) ^ 45 \<le> 1.14003510"
    by (simp only: e)
qed

lemma growth360:
  "2.85328673 \<le> (2407 / 2400 :: real) ^ 360" "(2407 / 2400 :: real) ^ 360 \<le> 2.85328914"
proof -
  have e: "(2407 / 2400 :: real) ^ 360 = ((2407 / 2400) ^ 45) ^ 8"
    by (simp only: power_mult [symmetric]) simp
  have "(2.85328673 :: real) \<le> 1.14003498 ^ 8"
    by (simp add: power_divide)
  also have "\<dots> \<le> ((2407 / 2400) ^ 45) ^ 8"
    by (rule power_mono [OF growth45(1)]) simp
  finally show "2.85328673 \<le> (2407 / 2400 :: real) ^ 360"
    by (simp only: e)
  have "((2407 / 2400 :: real) ^ 45) ^ 8 \<le> 1.14003510 ^ 8"
    by (rule power_mono [OF growth45(2)]) simp
  also have "\<dots> \<le> (2.85328914 :: real)"
    by (simp add: power_divide)
  finally show "(2407 / 2400 :: real) ^ 360 \<le> 2.85328914"
    by (simp only: e)
qed

lemma default_payment_bounds: "1077.70 \<le> default_payment" "default_payment \<le> 1077.72"
proof -
  define x :: real where "x = (2407 / 2400) ^ 360"
  have x: "2.85328673 \<le> x" "x \<le> 2.85328914"
    using growth360 by (simp_all only: x_def)
  have p: "default_payment = 240000 * (7 / 2400 * x) / (x - 1)"
    by (simp only: default_payment_def x_def)
  show "1077.70 \<le> default_payment" "default_payment \<le> 1077.72"
    using x unfolding p by (simp_all add: field_simps)
qed

lemma default_mortgage:
  assumes "mortgage_amount i = 240000" "interest_rate i = 3.5" "mortgage_years i = 30"
  shows "monthly_mortgage i = Inr default_payment"
proof -
  have r: "monthly_rate i = 7 / 2400"
    unfolding monthly_rate_def assms by simp
  have n: "num_payments i = 360"
    unfolding num_payments_def assms by simp
  have q: "(1 + 7 / 2400 :: real) = 2407 / 2400"
    by simp
  have d: "(2407 / 2400 :: real) ^ 360 - 1 \<noteq> 0"
    using growth360(1) by simp
  have "monthly_mortgage i =
          py_div (240000 * (7 / 2400 * (2407 / 2400) ^ 360)) ((2407 / 2400) ^ 360 - 1)"
    unfolding monthly_mortgage_def r n q assms(1) by simp
  also have "\<dots> = Inr default_payment"
    unfolding default_payment_def by (rule py_div_nonzero [OF d])
  finally show ?thesis .
qed


lemma within:
  fixes x :: real
  assumes "l \<le> x" "x \<le> u" "c - e \<le> l" "u \<le> c + e"
  shows "\<bar>x - c\<bar> \<le> e"
  using assms by (simp add: abs_le_iff)

text \<open>
  C1. At the default inputs the monthly payment is 1077.71 within 0.01, the long-term
  gross income is 14400, the short-term gross income is 18720, the total annual costs are
  25432.5 within 0.5, the long-term net before tax is -11032.5 within 0.5, the long-term
  tax is 0 and the long-term net after tax equals the net before tax.
\<close>

theorem example_figures:
  "\<exists>mm. monthly_mortgage example_inputs = Inr mm
     \<and> \<bar>mm - 1077.71\<bar> \<le> 0.01
     \<and> annual_long_gross example_inputs = 14400
     \<and> annual_short_gross example_inputs = 18720
     \<and> \<bar>total_annual_costs example_inputs mm - 25432.5\<bar> \<le> 0.5
     \<and> \<bar>annual_long_net_before_tax example_inputs mm - (- 11032.5)\<bar> \<le> 0.5
     \<and> income_tax_long example_inputs mm = 0
     \<and> annual_long_after_tax example_inputs mm = annual_long_net_before_tax example_inputs mm"
proof -
  have m: "monthly_mortgage example_inputs = Inr default_payment"
    by (rule default_mortgage) (simp_all add: example_inputs_def)
  have g: "annual_long_gross example_inputs = 14400"
    by (simp add: annual_long_gross_def example_inputs_def)
  have s: "annual_short_gross example_inputs = 18720"
    by (simp add: annual_short_gross_def monthly_nights_booked_def days_per_month_def
        example_inputs_def)
  have c: "total_annual_costs example_inputs default_payment = 12500 + default_payment * 12"
    by (simp add: total_annual_costs_def annual_property_tax_def annual_maintenance_def
        annual_mortgage_payments_def annual_insurance_def example_inputs_def)
  have n: "annual_long_net_before_tax example_inputs default_payment
             = 1900 - default_payment * 12"
    by (simp add: annual_long_net_before_tax_def g c)
  have neg: "annual_long_net_before_tax example_inputs default_payment < 0"
    using default_payment_bounds(1) by (simp add: n)
  have t: "income_tax_long example_inputs default_payment = 0"
    using neg by (simp add: income_tax_long_def example_inputs_def max_def)
  have a: "annual_long_after_tax example_inputs default_payment
             = annual_long_net_before_tax example_inputs default_payment"
    by (simp add: annual_long_after_tax_def t)
  have b1: "\<bar>default_payment - 1077.71\<bar> \<le> 0.01"
    by (rule within [OF default_payment_bounds]) simp_all
  have "25432.4 \<le> total_annual_costs example_inputs default_payment"
    and "total_annual_costs example_inputs default_payment \<le> 25432.64"
    using default_payment_bounds by (simp_all add: c)
  then have b2: "\<bar>total_annual_costs example_inputs default_payment - 25432.5\<bar> \<le> 0.5"
    by (rule within) simp_all
  have "- 11032.64 \<le> annual_long_net_before_tax example_inputs default_payment"
    and "annual_long_net_before_tax example_inputs default_payment \<le> - 11032.4"
    using default_payment_bounds by (simp_all add: n)
  then have b3:
    "\<bar>annual_long_net_before_tax example_inputs default_payment - (- 11032.5)\<bar> \<le> 0.5"
    by (rule within) simp_all
  from m b1 g s b2 b3 t a show ?thesis
    by blast
qed

section \<open>The whole run\<close>

text \<open>
  Once the mortgage payment is computed, the only line that can still fault is the LTV
  line. When it does not, the run yields a report.
\<close>

lemma analyse_val:
  assumes m: "monthly_mortgage i = Inr mm"
    and l: "ltv_ratio i = Inr ltv"
  shows "\<exists>r. analyse i = Inr r
           \<and> rep_monthly_mortgage r = mm
           \<and> yield_long_net i mm = Inr (rep_yield_long_net r)
           \<and> yield_short_net i mm = Inr (rep_yield_short_net r)
           \<and> recommend i mm = Inr (rep_recommendation r)
           \<and> best_strategy i mm = Inr (rep_best_strategy r)
           \<and> breakeven_years i mm = Inr (rep_breakeven_years r)
           \<and> grade i mm = Inr (rep_grade r)
           \<and> rep_ltv_ratio r = ltv"
proof -
  obtain rc where rc: "recommend i mm = Inr rc"
    using recommend_total by blast
  obtain bs where bs: "best_strategy i mm = Inr bs"
    using best_strategy_total by blast
  obtain b where b: "best_roi i mm = Inr b" and g: "grade i mm = Inr (grade_of b)"
    using grade_val by blast
  show ?thesis
    unfolding analyse_def m
    by (simp add: yield_long_gross_val yield_long_net_val roi_long_val yield_short_gross_val
        yield_short_net_val roi_short_val breakeven_years_val total_roi_long_val
        total_roi_short_val rc bs b g l)
qed


section \<open>Ties\<close>

lemma recommend_tie:
  assumes "yield_short_net i mm = yield_long_net i mm"
  shows "\<exists>rc. recommend i mm = Inr rc \<and> shown_verdict rc = Similar"
proof -
  obtain yl where yl: "yield_long_net i mm = Inr yl"
    by (simp add: yield_long_net_val)
  with assms have ys: "yield_short_net i mm = Inr yl"
    by simp
  show ?thesis
    by (simp add: recommend_def yield_difference_def yl ys)
qed

lemma best_strategy_tie:
  assumes "yield_short_net i mm = yield_long_net i mm"
  shows "best_strategy i mm = Inr LongTerm"
proof -
  obtain yl where yl: "yield_long_net i mm = Inr yl"
    by (simp add: yield_long_net_val)
  with assms have ys: "yield_short_net i mm = Inr yl"
    by simp
  show ?thesis
    by (simp add: best_strategy_def yl ys)
qed

text \<open>
  C2. On a tie of the two net yields the recommendation column reports similar
  profitability, yet the summary column names a best strategy: at the defaults with an
  occupancy of 50 the run ends with equal net yields, the verdict \<open>Similar\<close> and
  \<open>LongTerm\<close> as best strategy.
\<close>

theorem tie_best_strategy_long_term:
  "\<exists>r. analyse tie_inputs = Inr r
     \<and> rep_yield_short_net r = rep_yield_long_net r
     \<and> shown_verdict (rep_recommendation r) = Similar
     \<and> rep_best_strategy r = LongTerm"
proof -
  have m: "monthly_mortgage tie_inputs = Inr default_payment"
    by (rule default_mortgage) (simp_all add: tie_inputs_def example_inputs_def)
  have l: "ltv_ratio tie_inputs = Inr (Some 80)"
    by (simp add: ltv_ratio_val tie_inputs_def example_inputs_def)
  have g: "annual_short_gross tie_inputs = annual_long_gross tie_inputs"
    by (simp add: annual_short_gross_def annual_long_gross_def monthly_nights_booked_def
        days_per_month_def tie_inputs_def example_inputs_def)
  have a: "annual_short_after_tax tie_inputs default_payment
             = annual_long_after_tax tie_inputs default_payment"
    by (simp add: annual_short_after_tax_def annual_long_after_tax_def income_tax_short_def
        income_tax_long_def annual_short_net_before_tax_def annual_long_net_before_tax_def g)
  have y: "yield_short_net tie_inputs default_payment = yield_long_net tie_inputs default_payment"
    by (simp add: yield_short_net_val yield_long_net_val a)
  obtain r where r: "analyse tie_inputs = Inr r"
    and yl: "yield_long_net tie_inputs default_payment = Inr (rep_yield_long_net r)"
    and ys: "yield_short_net tie_inputs default_payment = Inr (rep_yield_short_net r)"
    and rc: "recommend tie_inputs default_payment = Inr (rep_recommendation r)"
    and bs: "best_strategy tie_inputs default_payment = Inr (rep_best_strategy r)"
    using analyse_val [OF m l] by blast
  have "rep_yield_short_net r = rep_yield_long_net r"
    using y yl ys by simp
  moreover have "shown_verdict (rep_recommendation r) = Similar"
    using recommend_tie [OF y] rc by auto
  moreover have "rep_best_strategy r = LongTerm"
    using best_strategy_tie [OF y] bs by simp
  ultimately show ?thesis
    using r by blast
qed

section \<open>Guarded divisions\<close>




section \<open>Figures at the concrete input sets\<close>

lemma cash_mortgage: "monthly_mortgage cash_inputs = Inr 0"
  by (simp add: monthly_mortgage_def cash_inputs_def)

lemma cash_costs: "total_annual_costs cash_inputs 0 = 3400"
  by (simp add: total_annual_costs_def annual_property_tax_def annual_maintenance_def
      annual_mortgage_payments_def annual_insurance_def cash_inputs_def)

lemma cash_long_after_tax: "annual_long_after_tax cash_inputs 0 = 6880"
  by (simp add: annual_long_after_tax_def income_tax_long_def annual_long_net_before_tax_def
      annual_long_gross_def cash_costs) (simp add: cash_inputs_def)

lemma cash_short_after_tax: "annual_short_after_tax cash_inputs 0 = 11680"
  by (simp add: annual_short_after_tax_def income_tax_short_def annual_short_net_before_tax_def
      annual_short_gross_def monthly_nights_booked_def days_per_month_def cash_costs)
    (simp add: cash_inputs_def)

lemma example_costs: "total_annual_costs example_inputs mm = 12500 + mm * 12"
  by (simp add: total_annual_costs_def annual_property_tax_def annual_maintenance_def
      annual_mortgage_payments_def annual_insurance_def example_inputs_def)

lemma example_long_after_tax:
  "annual_long_after_tax example_inputs default_payment = 1900 - default_payment * 12"
proof -
  have n: "annual_long_net_before_tax example_inputs default_payment = 1900 - default_payment * 12"
    by (simp add: annual_long_net_before_tax_def annual_long_gross_def example_costs)
      (simp add: example_inputs_def)
  have "1900 - default_payment * 12 < 0"
    using default_payment_bounds(1) by simp
  then show ?thesis
    by (simp add: annual_long_after_tax_def income_tax_long_def n max_def)
      (simp add: example_inputs_def mult_less_0_iff)
qed

lemma example_short_after_tax:
  "annual_short_after_tax example_inputs default_payment = 6220 - default_payment * 12"
proof -
  have n: "annual_short_net_before_tax example_inputs default_payment = 6220 - default_payment * 12"
    by (simp add: annual_short_net_before_tax_def annual_short_gross_def monthly_nights_booked_def
        days_per_month_def example_costs) (simp add: example_inputs_def)
  have "6220 - default_payment * 12 < 0"
    using default_payment_bounds(1) by simp
  then show ?thesis
    by (simp add: annual_short_after_tax_def income_tax_short_def n max_def)
      (simp add: example_inputs_def mult_less_0_iff)
qed

section \<open>Payback period\<close>

text \<open>
  C4. The payback period is the initial investment divided by the larger of the two net
  after-tax cash flows when that is positive; otherwise it is \<open>PosInf\<close>, which is no
  finite number. The line never faults.
\<close>

theorem breakeven_years_guarded:
  "best_cash_flow i mm = max (annual_long_after_tax i mm) (annual_short_after_tax i mm)
     \<and> (best_cash_flow i mm > 0 \<longrightarrow>
          breakeven_years i mm = Inr (Finite (initial_investment i / best_cash_flow i mm)))
     \<and> (best_cash_flow i mm \<le> 0 \<longrightarrow>
          breakeven_years i mm = Inr PosInf \<and> (\<forall>y. breakeven_years i mm \<noteq> Inr (Finite y)))
     \<and> (\<forall>e. breakeven_years i mm \<noteq> Inl e)"
  by (auto simp add: breakeven_years_val best_cash_flow_def cash_flow_long_def
      cash_flow_short_def)

theorem breakeven_years_guarded_witness:
  "best_cash_flow cash_inputs 0 > 0
     \<and> breakeven_years cash_inputs 0 = Inr (Finite (100000 / 11680))
     \<and> best_cash_flow example_inputs default_payment \<le> 0
     \<and> breakeven_years example_inputs default_payment = Inr PosInf"
proof -
  have c: "best_cash_flow cash_inputs 0 = 11680"
    by (simp add: best_cash_flow_def cash_flow_long_def cash_flow_short_def
        cash_long_after_tax cash_short_after_tax)
  have i: "initial_investment cash_inputs = 100000"
    by (simp add: cash_inputs_def)
  have e: "best_cash_flow example_inputs default_payment \<le> 0"
    using default_payment_bounds(1)
    by (simp add: best_cash_flow_def cash_flow_long_def cash_flow_short_def
        example_long_after_tax example_short_after_tax)
  show ?thesis
    using breakeven_years_guarded [of cash_inputs 0]
      breakeven_years_guarded [of example_inputs default_payment] e
    by (simp add: c i)
qed

section \<open>Grade\<close>

text \<open>
  C5. The grade is taken from the larger of the two cash-on-cash returns: Excellent from
  15, Good from 10 to below 15, Moderate from 5 to below 10, Poor below 5; exactly 5 is
  Moderate.
\<close>

theorem grade_bands:
  "(\<exists>rl rs. roi_long i mm = Inr rl \<and> roi_short i mm = Inr rs
        \<and> best_roi i mm = Inr (max rl rs) \<and> grade i mm = Inr (grade_of (max rl rs)))
     \<and> (b \<ge> 15 \<longrightarrow> grade_of b = Excellent)
     \<and> (10 \<le> b \<and> b < 15 \<longrightarrow> grade_of b = Good)
     \<and> (5 \<le> b \<and> b < 10 \<longrightarrow> grade_of b = Moderate)
     \<and> (b < 5 \<longrightarrow> grade_of b = Poor)
     \<and> grade_of 5 = Moderate"
  by (simp add: grade_def best_roi_def roi_long_val roi_short_val grade_of_def)

theorem grade_bands_witness:
  "grade cash_inputs 0 = Inr Good
     \<and> grade_of 15 = Excellent \<and> grade_of 10 = Good \<and> grade_of 5 = Moderate
     \<and> grade_of 4.99 = Poor"
proof -
  have l: "roi_long cash_inputs 0 = Inr 6.88"
    by (simp add: roi_long_val cash_long_after_tax) (simp add: cash_inputs_def)
  have s: "roi_short cash_inputs 0 = Inr 11.68"
    by (simp add: roi_short_val cash_short_after_tax) (simp add: cash_inputs_def)
  obtain rl rs where rl: "roi_long cash_inputs 0 = Inr rl"
    and rs: "roi_short cash_inputs 0 = Inr rs"
    and gr: "grade cash_inputs 0 = Inr (grade_of (max rl rs))"
    and good: "10 \<le> (11.68 :: real) \<and> (11.68 :: real) < 15 \<longrightarrow> grade_of 11.68 = Good"
    using grade_bands [of cash_inputs 0 "11.68"] by blast
  have v: "rl = 6.88" "rs = 11.68"
    using l s rl rs by simp_all
  have m: "max rl rs = 11.68"
    unfolding v by simp
  have "(10 :: real) \<le> 11.68 \<and> (11.68 :: real) < 15"
    by simp
  with good have "grade_of 11.68 = Good"
    by blast
  with gr m have g: "grade cash_inputs 0 = Inr Good"
    by (simp only:)
  with g show ?thesis
    using grade_bands [of cash_inputs 0 15] grade_bands [of cash_inputs 0 10]
      grade_bands [of cash_inputs 0 "4.99"]
    by simp
qed

section \<open>Interest rate of zero\<close>

text \<open>
  C7. With a principal above zero, a positive term and an interest rate of exactly 0 the
  monthly payment is the principal divided by \<open>mortgage_years * 12\<close>, and the principal
  paid in the first year is the smaller of twelve payments and the principal.
\<close>

theorem zero_rate_mortgage:
  assumes "mortgage_amount i > 0" "mortgage_years i > 0" "interest_rate i = 0"
  shows "\<exists>mm. monthly_mortgage i = Inr mm
           \<and> mm = mortgage_amount i / (of_int (mortgage_years i) * 12)
           \<and> annual_principal_payment i mm = min (12 * mm) (mortgage_amount i)"
proof -
  have r: "monthly_rate i = 0"
    by (simp add: monthly_rate_def assms(3))
  have n: "(of_int (num_payments i) :: real) \<noteq> 0"
    using assms(2) by (simp add: num_payments_def)
  have "monthly_mortgage i = Inr (mortgage_amount i / of_int (num_payments i))"
    using assms(1) by (simp add: monthly_mortgage_def r py_div_nonzero [OF n])
  moreover have "annual_principal_payment i mm = min (12 * mm) (mortgage_amount i)" for mm
    by (simp add: annual_principal_payment_def r annual_mortgage_payments_def mult.commute)
  ultimately show ?thesis
    by (simp add: num_payments_def)
qed

theorem zero_rate_mortgage_witness:
  "mortgage_amount zero_rate_inputs > 0 \<and> mortgage_years zero_rate_inputs > 0
     \<and> interest_rate zero_rate_inputs = 0
     \<and> monthly_mortgage zero_rate_inputs = Inr (240000 / 360)
     \<and> annual_principal_payment zero_rate_inputs (240000 / 360) = 8000"
proof -
  have h: "mortgage_amount zero_rate_inputs > 0" "mortgage_years zero_rate_inputs > 0"
    "interest_rate zero_rate_inputs = 0"
    by (simp_all add: zero_rate_inputs_def example_inputs_def)
  have v: "mortgage_amount zero_rate_inputs = 240000" "mortgage_years zero_rate_inputs = 30"
    by (simp_all add: zero_rate_inputs_def example_inputs_def)
  obtain mm where m: "monthly_mortgage zero_rate_inputs = Inr mm"
    and e: "mm = mortgage_amount zero_rate_inputs / (of_int (mortgage_years zero_rate_inputs) * 12)"
    and a: "annual_principal_payment zero_rate_inputs mm
              = min (12 * mm) (mortgage_amount zero_rate_inputs)"
    using zero_rate_mortgage [OF h] by blast
  have mv: "mm = 240000 / 360"
    unfolding e v by simp
  have "annual_principal_payment zero_rate_inputs (240000 / 360)
          = min (12 * (240000 / 360)) 240000"
    using a unfolding mv v .
  also have "\<dots> = 8000"
    by simp
  finally have "annual_principal_payment zero_rate_inputs (240000 / 360) = 8000" .
  moreover have "monthly_mortgage zero_rate_inputs = Inr (240000 / 360)"
    using m unfolding mv .
  ultimately show ?thesis
    using h by blast
qed

section \<open>Net yield and cash flow\<close>

lemma yield_order:
  fixes a b p :: real
  assumes "p > 0"
  shows "a / p * 100 < b / p * 100 \<longleftrightarrow> a < b"
  using assms by (simp add: divide_less_cancel)

section \<open>Symmetry of the comparison\<close>

lemma exchanged_after_tax:
  assumes "annual_long_gross j = annual_short_gross i"
    and "annual_short_gross j = annual_long_gross i"
    and "total_annual_costs j mm = total_annual_costs i mm"
    and "income_tax_rate j = income_tax_rate i"
  shows "annual_long_after_tax j mm = annual_short_after_tax i mm"
    and "annual_short_after_tax j mm = annual_long_after_tax i mm"
  using assms
  by (simp_all add: annual_long_after_tax_def annual_short_after_tax_def income_tax_long_def
      income_tax_short_def annual_long_net_before_tax_def annual_short_net_before_tax_def)

text \<open>
  C8. Exchanging the gross annual incomes of the two strategies, all costs, the tax rate
  and the price being equal, exchanges the strategy announced as more profitable (and
  leaves a report of similar profitability as it is), while the net-yield difference and
  the net-income difference stay the same.
\<close>

theorem comparison_symmetric:
  assumes "annual_long_gross j = annual_short_gross i"
    and "annual_short_gross j = annual_long_gross i"
    and "total_annual_costs j mm = total_annual_costs i mm"
    and "income_tax_rate j = income_tax_rate i"
    and "price j = price i"
  shows "\<exists>rc rc'. recommend i mm = Inr rc \<and> recommend j mm = Inr rc'
           \<and> (shown_verdict rc = MoreProfitable ShortTerm
                \<longleftrightarrow> shown_verdict rc' = MoreProfitable LongTerm)
           \<and> (shown_verdict rc = MoreProfitable LongTerm
                \<longleftrightarrow> shown_verdict rc' = MoreProfitable ShortTerm)
           \<and> (shown_verdict rc = Similar \<longleftrightarrow> shown_verdict rc' = Similar)
           \<and> shown_yield_difference rc' = shown_yield_difference rc
           \<and> shown_income_difference rc' = shown_income_difference rc"
proof -
  note x = exchanged_after_tax [OF assms(1-4)]
  obtain ys yl where s: "yield_short_net i mm = Inr ys" and l: "yield_long_net i mm = Inr yl"
    by (simp add: yield_short_net_val yield_long_net_val)
  have "yield_short_net j mm = yield_long_net i mm"
    by (simp add: yield_short_net_val yield_long_net_val x assms(5))
  with l have s': "yield_short_net j mm = Inr yl"
    by simp
  have "yield_long_net j mm = yield_short_net i mm"
    by (simp add: yield_short_net_val yield_long_net_val x assms(5))
  with s have l': "yield_long_net j mm = Inr ys"
    by simp
  have d: "income_difference j mm = income_difference i mm"
    by (simp add: income_difference_def x abs_minus_commute)
  show ?thesis
    by (simp add: recommend_def yield_difference_def s l s' l' d abs_minus_commute)
qed

theorem comparison_symmetric_witness:
  "annual_long_gross swapped_inputs = annual_short_gross example_inputs
     \<and> annual_short_gross swapped_inputs = annual_long_gross example_inputs
     \<and> (\<exists>rc rc'. recommend example_inputs default_payment = Inr rc
           \<and> recommend swapped_inputs default_payment = Inr rc'
           \<and> shown_verdict rc = MoreProfitable ShortTerm
           \<and> shown_verdict rc' = MoreProfitable LongTerm
           \<and> shown_yield_difference rc' = shown_yield_difference rc
           \<and> shown_income_difference rc' = shown_income_difference rc)"
proof -
  have g: "annual_long_gross swapped_inputs = annual_short_gross example_inputs"
    "annual_short_gross swapped_inputs = annual_long_gross example_inputs"
    by (simp_all add: annual_long_gross_def annual_short_gross_def monthly_nights_booked_def
        days_per_month_def swapped_inputs_def example_inputs_def)
  have c: "total_annual_costs swapped_inputs default_payment
             = total_annual_costs example_inputs default_payment"
    by (simp add: total_annual_costs_def annual_property_tax_def annual_maintenance_def
        annual_insurance_def swapped_inputs_def)
  have t: "income_tax_rate swapped_inputs = income_tax_rate example_inputs"
    and p: "price swapped_inputs = price example_inputs"
    by (simp_all add: swapped_inputs_def)
  obtain rc rc' where rc: "recommend example_inputs default_payment = Inr rc"
    and rc': "recommend swapped_inputs default_payment = Inr rc'"
    and v: "shown_verdict rc = MoreProfitable ShortTerm
              \<longleftrightarrow> shown_verdict rc' = MoreProfitable LongTerm"
    and d: "shown_yield_difference rc' = shown_yield_difference rc"
      "shown_income_difference rc' = shown_income_difference rc"
    using comparison_symmetric [OF g c t p] by blast
  have "price example_inputs > 0"
    by (simp add: example_inputs_def)
  moreover have "annual_long_after_tax example_inputs default_payment
          < annual_short_after_tax example_inputs default_payment"
    by (simp add: example_long_after_tax example_short_after_tax)
  ultimately have
    "annual_long_after_tax example_inputs default_payment / price example_inputs * 100
       < annual_short_after_tax example_inputs default_payment / price example_inputs * 100"
    by (simp only: yield_order)
  then have "shown_verdict rc = MoreProfitable ShortTerm"
    using rc \<open>price example_inputs > 0\<close>
    by (auto simp add: recommend_def yield_difference_def yield_short_net_val
        yield_long_net_val)
  with v rc rc' d g show ?thesis
    by blast
qed

section \<open>The first year of the mortgage\<close>

text \<open>Each month moves principal from the balance to the amount paid.\<close>

lemma months_total: "fst (months k r mm s) + snd (months k r mm s) = fst s + snd s"
  by (induction k arbitrary: s) (simp_all add: month_step_def Let_def)

text \<open>The balance after \<open>k\<close> months, in closed form.\<close>

lemma months_balance:
  assumes "r \<noteq> 0"
  shows "snd (months k r mm s) = snd s * (1 + r) ^ k - mm * ((1 + r) ^ k - 1) / r"
proof (induction k arbitrary: s)
  case 0
  show ?case by simp
next
  case (Suc k)
  have b: "snd (month_step r mm s) = snd s * (1 + r) - mm"
    by (simp add: month_step_def Let_def algebra_simps)
  have "snd (months (Suc k) r mm s)
          = (snd s * (1 + r) - mm) * (1 + r) ^ k - mm * ((1 + r) ^ k - 1) / r"
    by (simp add: Suc.IH b)
  also have "\<dots> = snd s * (1 + r) ^ Suc k - mm * ((1 + r) ^ Suc k - 1) / r"
    using assms by (simp add: field_simps)
  finally show ?case .
qed

text \<open>
  With the payment of an annuity over \<open>n\<close> months, at least twelve, the balance after
  twelve months is not negative.
\<close>

lemma annuity_balance_nonneg:
  fixes P r :: real
  assumes P: "P > 0" and r: "r > 0" and n: "12 \<le> n"
    and mm: "mm = P * (r * (1 + r) ^ n) / ((1 + r) ^ n - 1)"
  shows "0 \<le> P * (1 + r) ^ 12 - mm * ((1 + r) ^ 12 - 1) / r"
proof -
  define x where "x = (1 + r) ^ 12"
  define y where "y = (1 + r) ^ n"
  have x1: "1 < x"
    unfolding x_def using r by (intro one_less_power) simp_all
  have xy: "x \<le> y"
    unfolding x_def y_def using r n by (intro power_increasing) simp_all
  have y1: "0 < y - 1"
    using x1 xy by simp
  have "mm * (x - 1) / r = P * y * (x - 1) / (y - 1)"
    using r y1 by (simp add: mm y_def [symmetric] field_simps)
  then have "P * x - mm * (x - 1) / r = P * x - P * y * (x - 1) / (y - 1)"
    by simp
  also have "\<dots> = P * (y - x) / (y - 1)"
    using y1 by (simp add: field_simps)
  also have "0 \<le> \<dots>"
    using P xy y1 by simp
  finally show ?thesis
    unfolding x_def .
qed

text \<open>
  C6. With a principal above zero, an interest rate that is not negative and a positive
  term in years, the mortgage lines return a monthly payment above zero, and the
  principal paid in the first year does not exceed the principal.
\<close>

theorem mortgage_payment_positive:
  assumes P: "mortgage_amount i > 0" and rate: "interest_rate i \<ge> 0"
    and years: "mortgage_years i > 0"
  shows "\<exists>mm. monthly_mortgage i = Inr mm \<and> mm > 0
           \<and> annual_principal_payment i mm \<le> mortgage_amount i"
proof (cases "interest_rate i = 0")
  case True
  then have r: "monthly_rate i = 0"
    by (simp add: monthly_rate_def)
  have n: "(0 :: real) < of_int (num_payments i)"
    using years by (simp add: num_payments_def)
  then have "monthly_mortgage i = Inr (mortgage_amount i / of_int (num_payments i))"
    using P by (simp add: monthly_mortgage_def r py_div_nonzero)
  moreover have "mortgage_amount i / of_int (num_payments i) > 0"
    using P n by simp
  moreover have "annual_principal_payment i mm \<le> mortgage_amount i" for mm
    by (simp add: annual_principal_payment_def r)
  ultimately show ?thesis
    by blast
next
  case False
  with rate have r: "monthly_rate i > 0"
    by (simp add: monthly_rate_def)
  define N where "N = nat (num_payments i)"
  have N: "12 \<le> N"
    using years by (simp add: N_def num_payments_def)
  have pw: "(1 + monthly_rate i) powi num_payments i = (1 + monthly_rate i) ^ N"
    using years by (simp add: N_def num_payments_def power_int_def)
  have gt: "1 < (1 + monthly_rate i) ^ N"
    using r N by (intro one_less_power) simp_all
  define mm where
    "mm = mortgage_amount i * (monthly_rate i * (1 + monthly_rate i) ^ N)
            / ((1 + monthly_rate i) ^ N - 1)"
  have m: "monthly_mortgage i = Inr mm"
    using P r gt by (simp add: monthly_mortgage_def pw py_div_nonzero mm_def)
  have pos: "mm > 0"
    unfolding mm_def using P r gt by simp
  have "annual_principal_payment i mm
          = fst (months 12 (monthly_rate i) mm (0, mortgage_amount i))"
    using P r by (simp add: annual_principal_payment_def)
  also have "\<dots> = mortgage_amount i
          - snd (months 12 (monthly_rate i) mm (0, mortgage_amount i))"
    using months_total [of 12 "monthly_rate i" mm "(0, mortgage_amount i)"] by simp
  also have "snd (months 12 (monthly_rate i) mm (0, mortgage_amount i))
          = mortgage_amount i * (1 + monthly_rate i) ^ 12
              - mm * ((1 + monthly_rate i) ^ 12 - 1) / monthly_rate i"
    using r by (simp add: months_balance)
  finally have "annual_principal_payment i mm
          = mortgage_amount i
              - (mortgage_amount i * (1 + monthly_rate i) ^ 12
                   - mm * ((1 + monthly_rate i) ^ 12 - 1) / monthly_rate i)" .
  moreover have "0 \<le> mortgage_amount i * (1 + monthly_rate i) ^ 12
                   - mm * ((1 + monthly_rate i) ^ 12 - 1) / monthly_rate i"
    by (rule annuity_balance_nonneg [OF P r N mm_def])
  ultimately have "annual_principal_payment i mm \<le> mortgage_amount i"
    by simp
  with m pos show ?thesis
    by blast
qed

theorem mortgage_payment_positive_witness:
  "mortgage_amount example_inputs > 0 \<and> interest_rate example_inputs \<ge> 0
     \<and> mortgage_years example_inputs > 0
     \<and> (\<exists>mm. monthly_mortgage example_inputs = Inr mm \<and> mm > 0
           \<and> annual_principal_payment example_inputs mm \<le> mortgage_amount example_inputs)
     \<and> mortgage_amount zero_rate_inputs > 0 \<and> interest_rate zero_rate_inputs \<ge> 0
     \<and> mortgage_years zero_rate_inputs > 0
     \<and> (\<exists>mm. monthly_mortgage zero_rate_inputs = Inr mm \<and> mm > 0
           \<and> annual_principal_payment zero_rate_inputs mm
                \<le> mortgage_amount zero_rate_inputs)"
proof -
  have e: "mortgage_amount example_inputs > 0" "interest_rate example_inputs \<ge> 0"
    "mortgage_years example_inputs > 0"
    by (simp_all add: example_inputs_def)
  have z: "mortgage_amount zero_rate_inputs > 0" "interest_rate zero_rate_inputs \<ge> 0"
    "mortgage_years zero_rate_inputs > 0"
    by (simp_all add: zero_rate_inputs_def example_inputs_def)
  show ?thesis
    using mortgage_payment_positive [OF e] mortgage_payment_positive [OF z] e z
    by blast
qed

section \<open>Evaluating the rounding\<close>

lemma bit_length_numeral:
  "bit_length (numeral k) = Suc (bit_length (numeral k div 2))"
  "bit_length 0 = 0" "bit_length (Suc 0) = Suc 0"
  by simp_all

declare bit_length.simps [simp del]

lemmas rd_eval = round_double_def exponent_def round_half_even_def Let_def bit_length_numeral

lemma round_double_0 [simp]: "round_double 0 = 0"
  by (simp add: round_double_def)








text \<open>The doubles of the rents: rounding leaves them as they are.\<close>

lemma collision_rents_are_doubles:
  "round_double (rent_long collision_inputs) = rent_long collision_inputs"
  "round_double (rent_short collision_inputs) = rent_short collision_inputs"
  by (simp_all add: collision_inputs_def) (simp_all add: rd_eval)



section \<open>After-tax cash flow of neighbouring rents\<close>

lemma rent_costs:
  "total_annual_costs_fl lower_rent_inputs 0 = 1400"
  "total_annual_costs_fl higher_rent_inputs 0 = 1400"
  by (simp_all add: total_annual_costs_fl_def annual_property_tax_fl_def
      annual_maintenance_fl_def annual_mortgage_payments_fl_def lower_rent_inputs_def
      higher_rent_inputs_def collision_inputs_def) (simp_all add: rd_eval)



lemma higher_rent_gross:
  "annual_long_gross_fl higher_rent_inputs = 6715867574714557 / 2 ^ 40"
  by (simp add: annual_long_gross_fl_def higher_rent_inputs_def) (simp add: rd_eval)



lemma neighbouring_rents_are_doubles:
  "round_double (rent_long lower_rent_inputs) = rent_long lower_rent_inputs"
  "round_double (rent_long higher_rent_inputs) = rent_long higher_rent_inputs"
  by (simp_all add: lower_rent_inputs_def higher_rent_inputs_def) (simp_all add: rd_eval)


section \<open>A rate too small to count\<close>

lemma tiny_monthly_rate: "monthly_rate_fl tiny_rate_inputs = 5408642560973779 / 2 ^ 109"
proof -
  have "round_double (interest_rate tiny_rate_inputs / 100) = 2028240960365167 / 2 ^ 104"
    by (simp add: tiny_rate_inputs_def) (simp add: rd_eval)
  then show ?thesis
    unfolding monthly_rate_fl_def by (simp only:) (simp add: rd_eval)
qed

lemma tiny_growth: "round_double (1 + monthly_rate_fl tiny_rate_inputs) = 1"
  unfolding tiny_monthly_rate by (simp add: rd_eval)

theorem tiny_rate_counterexample:
  "mortgage_amount tiny_rate_inputs > 0 \<and> interest_rate tiny_rate_inputs \<ge> 0
     \<and> mortgage_years tiny_rate_inputs > 0
     \<and> monthly_rate_fl tiny_rate_inputs > 0
     \<and> monthly_mortgage_fl tiny_rate_inputs = Inl ZeroDivisionError"
proof -
  have r: "monthly_rate_fl tiny_rate_inputs > 0"
    unfolding tiny_monthly_rate by simp
  have p: "mortgage_amount tiny_rate_inputs > 0" "mortgage_years tiny_rate_inputs > 0"
    "interest_rate tiny_rate_inputs \<ge> 0"
    by (simp_all add: tiny_rate_inputs_def example_inputs_def)
  have w: "fl_pow 1 (num_payments tiny_rate_inputs) = 1"
    by (simp add: fl_pow_def) (simp add: rd_eval)
  have "monthly_mortgage_fl tiny_rate_inputs = Inl ZeroDivisionError"
    unfolding monthly_mortgage_fl_def tiny_growth w using p(1) r
    by (simp add: fl_div_def)
  with p r show ?thesis
    by simp
qed

section \<open>Properties of the rounding\<close>




























lemma round_double_1 [simp]: "round_double 1 = 1"
  by (simp add: rd_eval)



section \<open>Net yield and cash flow on doubles\<close>










section \<open>Income tax and gross income on doubles\<close>

















lemma higher_rent_net_before_tax:
  "annual_long_net_before_tax_fl higher_rent_inputs 0 = 5176551295828157 / 2 ^ 40"
  by (simp add: annual_long_net_before_tax_fl_def rent_costs higher_rent_gross)
    (simp add: rd_eval)


end
